theory Spec2Isabelle
  imports Complex_Main
begin

section \<open>The hosting environment: values, DOM elements, the map view\<close>

text \<open>
  The program is a TypeScript service (\<open>MapService\<close>, src/app/services/map.ts) and a root
  component (\<open>App\<close>, src/app/app.ts). Both work by mutating objects they do not own:
  two DOM elements found with \<open>document.querySelector\<close>, the \<open>MapView\<close> object handed
  over by the ready event, the console and the timer queue. The model passes one record
  holding all of them through every operation.
\<close>

text \<open>A property value that may be \<open>undefined\<close>, \<open>null\<close> or a string.\<close>

datatype jsval = JUndefined | JNull | JString string

text \<open>The operator \<open>a ?? b\<close>: \<open>b\<close> when \<open>a\<close> is \<open>null\<close> or \<open>undefined\<close>, else \<open>a\<close>.\<close>

fun coalesce :: "jsval \<Rightarrow> jsval \<Rightarrow> jsval" where
  "coalesce JUndefined b = b"
| "coalesce JNull b = b"
| "coalesce (JString a) b = JString a"

text \<open>A JavaScript number. The program only stores and copies numbers.\<close>

type_synonym number = real

text \<open>The \<open>PortalItem\<close> of a web map: the four properties the header reads.\<close>

record portal_item =
  title :: jsval
  snippet :: jsval
  thumbnailUrl :: jsval
  itemPageUrl :: jsval

text \<open>\<open>view.map\<close> seen as a \<open>WebMap\<close>; its \<open>portalItem\<close> may be missing.\<close>

record webmap =
  portalItem :: "portal_item option"

text \<open>The graphic built by \<open>dropMarker\<close>: \<open>new Graphic({geometry, symbol, attributes, popupTemplate})\<close>.\<close>

record point =
  longitude :: number
  latitude :: number

record marker_symbol =
  symbol_type :: string
  symbol_size :: nat

record attributes =
  attr_title :: string
  attr_lon :: number
  attr_lat :: number

record popup_template =
  template_title :: string
  template_content :: string

record graphic =
  geometry :: point
  symbol :: marker_symbol
  attributes :: attributes
  popupTemplate :: popup_template

text \<open>\<open>view.popup\<close>: \<open>open({features, location})\<close> shows the features at the location.\<close>

record popup =
  popup_visible :: bool
  popup_features :: "graphic list"
  popup_location :: "point option"

text \<open>The argument of \<open>view.goTo\<close> and the promise it returns.\<close>

record goto_options =
  center :: "number \<times> number"
  zoom :: number

datatype goto_promise = GoToPromise goto_options

text \<open>
  The closures the program hands to the environment. \<open>HideLoaderThenRemove\<close> is the arrow
  function of \<open>hideLoaderOnFirstLayerCreate\<close> (map.ts lines 65-68); \<open>TimeoutFallback\<close> is
  the arrow function given to \<open>setTimeout\<close> (app.ts line 88).
\<close>

datatype callback = HideLoaderThenRemove

datatype timer_callback = TimeoutFallback

text \<open>
  One registration made with \<open>view.on(name, callback)\<close>. \<open>lid\<close> identifies the handle
  that \<open>on\<close> returned, whose \<open>remove()\<close> ends the registration.
\<close>

record listener =
  lid :: nat
  evname :: string
  cb :: callback

text \<open>The \<open>MapView\<close> object, as far as the program touches it.\<close>

record mapview =
  view_map :: "webmap option"
  graphics :: "graphic list"
  view_popup :: "popup option"
  listeners :: "listener list"
  nextHandle :: nat
  goToCalls :: "goto_options list"

text \<open>A view handle is a reference to a \<open>MapView\<close> object.\<close>

type_synonym view_ref = nat

text \<open>\<open><calcite-navigation-logo>\<close>: the five properties the service writes.\<close>

record navigation_logo =
  heading :: jsval
  description :: jsval
  thumbnail :: jsval
  href :: jsval
  label :: jsval

text \<open>\<open><calcite-loader>\<close>.\<close>

record calcite_loader =
  hidden :: bool

text \<open>
  The ready event: \<open>event.detail\<close> and \<open>event.target\<close> may each be missing, and each may
  have a \<open>view\<close> property that is missing or a view.
\<close>

record event_detail =
  detail_view :: "view_ref option"

record event_target =
  target_view :: "view_ref option"

record event =
  detail :: "event_detail option"
  target :: "event_target option"

text \<open>What the program prints: the four console calls of the source.\<close>

datatype console_msg =
    LogFired event             \<comment> \<open>app.ts line 65, \<open>console.log\<close>\<close>
  | WarnViewNotFound           \<comment> \<open>app.ts line 73, \<open>console.warn\<close>\<close>
  | LogViewReady view_ref      \<comment> \<open>app.ts line 77, \<open>console.log\<close>\<close>
  | LogLoaderHidden string     \<comment> \<open>map.ts line 58, \<open>console.log\<close> with the reason\<close>

text \<open>
  The whole state: the service's private field \<open>_view\<close>, the view objects by reference,
  the two elements \<open>document.querySelector\<close> finds (or \<open>null\<close>), the console output and
  the pending timers with their delay.
\<close>

record state =
  svc_view :: "view_ref option"
  heap :: "view_ref \<Rightarrow> mapview"
  navLogo :: "navigation_logo option"
  loader :: "calcite_loader option"
  console :: "console_msg list"
  timers :: "(timer_callback \<times> nat) list"

text \<open>How a call ends: it returns a value or throws.\<close>

datatype js_error = TypeError

datatype 'a completion = Returned 'a | Thrown js_error

type_synonym 'a js = "state \<Rightarrow> 'a completion \<times> state"

text \<open>Statement sequencing \<open>f(); g()\<close>: a throw in \<open>f\<close> skips \<open>g\<close>.\<close>

definition andThen :: "unit js \<Rightarrow> 'a js \<Rightarrow> 'a js" where
  "andThen f g s =
     (case f s of
        (Returned _, s') \<Rightarrow> g s'
      | (Thrown e, s') \<Rightarrow> (Thrown e, s'))"

section \<open>Operations of the environment\<close>

definition console_out :: "console_msg \<Rightarrow> state \<Rightarrow> state" where
  "console_out m s = s\<lparr>console := console s @ [m]\<rparr>"

text \<open>\<open>setTimeout(callback, delay)\<close> queues the callback.\<close>

definition setTimeout :: "timer_callback \<Rightarrow> nat \<Rightarrow> unit js" where
  "setTimeout c d s = (Returned (), s\<lparr>timers := timers s @ [(c, d)]\<rparr>)"

definition update_view :: "view_ref \<Rightarrow> (mapview \<Rightarrow> mapview) \<Rightarrow> state \<Rightarrow> state" where
  "update_view v f s = s\<lparr>heap := (heap s)(v := f (heap s v))\<rparr>"

text \<open>\<open>view.on(name, callback)\<close> registers the callback and returns a fresh handle.\<close>

definition view_on :: "view_ref \<Rightarrow> string \<Rightarrow> callback \<Rightarrow> state \<Rightarrow> nat \<times> state" where
  "view_on v name c s =
     (let h = nextHandle (heap s v)
      in (h, update_view v (\<lambda>mv. mv\<lparr>listeners := listeners mv @ [\<lparr>lid = h, evname = name, cb = c\<rparr>],
                                  nextHandle := Suc h\<rparr>) s))"

text \<open>\<open>handle.remove()\<close>.\<close>

definition handle_remove :: "view_ref \<Rightarrow> nat \<Rightarrow> state \<Rightarrow> state" where
  "handle_remove v h s =
     update_view v (\<lambda>mv. mv\<lparr>listeners := filter (\<lambda>l. lid l \<noteq> h) (listeners mv)\<rparr>) s"

text \<open>\<open>view.graphics.add(g)\<close>, \<open>view.graphics.removeAll()\<close>, \<open>view.goTo(options)\<close>.\<close>

definition graphics_add :: "view_ref \<Rightarrow> graphic \<Rightarrow> state \<Rightarrow> state" where
  "graphics_add v g s = update_view v (\<lambda>mv. mv\<lparr>graphics := graphics mv @ [g]\<rparr>) s"

definition graphics_removeAll :: "view_ref \<Rightarrow> state \<Rightarrow> state" where
  "graphics_removeAll v s = update_view v (\<lambda>mv. mv\<lparr>graphics := []\<rparr>) s"

definition view_goTo :: "view_ref \<Rightarrow> goto_options \<Rightarrow> state \<Rightarrow> goto_promise \<times> state" where
  "view_goTo v opts s =
     (GoToPromise opts, update_view v (\<lambda>mv. mv\<lparr>goToCalls := goToCalls mv @ [opts]\<rparr>) s)"

text \<open>
  \<open>view.popup!.open({features, location})\<close>: the \<open>!\<close> only silences the type checker, so
  the call on a missing popup throws a \<open>TypeError\<close>.
\<close>

definition popup_open :: "view_ref \<Rightarrow> graphic list \<Rightarrow> point \<Rightarrow> unit js" where
  "popup_open v fs loc s =
     (case view_popup (heap s v) of
        None \<Rightarrow> (Thrown TypeError, s)
      | Some p \<Rightarrow>
          (Returned (),
           update_view v (\<lambda>mv. mv\<lparr>view_popup :=
              Some (p\<lparr>popup_visible := True, popup_features := fs, popup_location := Some loc\<rparr>)\<rparr>) s))"

section \<open>MapService (src/app/services/map.ts)\<close>

text \<open>A new service: \<open>_view\<close> is \<open>undefined\<close>; nothing printed, no timer pending.\<close>

definition new_MapService ::
  "(view_ref \<Rightarrow> mapview) \<Rightarrow> navigation_logo option \<Rightarrow> calcite_loader option \<Rightarrow> state" where
  "new_MapService h n l =
     \<lparr>svc_view = None, heap = h, navLogo = n, loader = l, console = [], timers = []\<rparr>"

definition setView :: "view_ref \<Rightarrow> unit js" where
  "setView v s = (Returned (), s\<lparr>svc_view := Some v\<rparr>)"

text \<open>The getter \<open>get view()\<close>.\<close>

definition view :: "state \<Rightarrow> view_ref option" where
  "view s = svc_view s"

definition updateHeaderFromPortalItem :: "unit js" where
  "updateHeaderFromPortalItem s =
     (let webmap = (case svc_view s of None \<Rightarrow> None | Some v \<Rightarrow> view_map (heap s v));
          portalItem = (case webmap of None \<Rightarrow> None | Some w \<Rightarrow> portalItem w)
      in case (portalItem, navLogo s) of
           (Some p, Some n) \<Rightarrow>
             (let n1 = n\<lparr>heading := title p\<rparr>;
                  n2 = n1\<lparr>description := coalesce (snippet p) (JString [])\<rparr>;
                  n3 = n2\<lparr>thumbnail := thumbnailUrl p\<rparr>;
                  n4 = n3\<lparr>href := itemPageUrl p\<rparr>;
                  n5 = n4\<lparr>label := JString ''Thumbnail of map''\<rparr>
              in (Returned (), s\<lparr>navLogo := Some n5\<rparr>))
         | _ \<Rightarrow> (Returned (), s))"

text \<open>\<open>hideLoader(reason = 'view ready')\<close>: \<open>None\<close> is a call without the argument.\<close>

definition hideLoader :: "string option \<Rightarrow> unit js" where
  "hideLoader reason_arg s =
     (let reason = (case reason_arg of None \<Rightarrow> ''view ready'' | Some r \<Rightarrow> r)
      in case loader s of
           Some l \<Rightarrow>
             if \<not> hidden l
             then (Returned (),
                   console_out (LogLoaderHidden reason) (s\<lparr>loader := Some (l\<lparr>hidden := True\<rparr>)\<rparr>))
             else (Returned (), s)
         | None \<Rightarrow> (Returned (), s))"

definition hideLoaderOnFirstLayerCreate :: "unit js" where
  "hideLoaderOnFirstLayerCreate s =
     (case svc_view s of
        None \<Rightarrow> (Returned (), s)
      | Some v \<Rightarrow> (Returned (), snd (view_on v ''layerview-create'' HideLoaderThenRemove s)))"

text \<open>\<open>goTo(center, zoom = 10)\<close>: the result is \<open>undefined\<close> (\<open>None\<close>) without a view.\<close>

definition goTo :: "number \<times> number \<Rightarrow> number option \<Rightarrow> (goto_promise option) js" where
  "goTo c zoom_arg s =
     (let z = (case zoom_arg of None \<Rightarrow> 10 | Some z \<Rightarrow> z)
      in case svc_view s of
           None \<Rightarrow> (Returned None, s)
         | Some v \<Rightarrow>
             (case view_goTo v \<lparr>center = c, zoom = z\<rparr> s of
                (p, s') \<Rightarrow> (Returned (Some p), s')))"

definition clearGraphics :: "unit js" where
  "clearGraphics s =
     (case svc_view s of
        None \<Rightarrow> (Returned (), s)
      | Some v \<Rightarrow> (Returned (), graphics_removeAll v s))"

text \<open>The graphic of \<open>dropMarker\<close> (map.ts lines 91-99).\<close>

definition marker :: "number \<Rightarrow> number \<Rightarrow> string \<Rightarrow> graphic" where
  "marker lon lat t =
     \<lparr>geometry = \<lparr>longitude = lon, latitude = lat\<rparr>,
      symbol = \<lparr>symbol_type = ''simple-marker'', symbol_size = 10\<rparr>,
      attributes = \<lparr>attr_title = t, attr_lon = lon, attr_lat = lat\<rparr>,
      popupTemplate = \<lparr>template_title = ''{title}'',
                       template_content = ''Lon: {lon}<br>Lat: {lat}''\<rparr>\<rparr>"

text \<open>\<open>dropMarker(lon, lat, title = 'Point')\<close>, with both presence checks of the source.\<close>

definition dropMarker :: "number \<Rightarrow> number \<Rightarrow> string option \<Rightarrow> unit js" where
  "dropMarker lon lat title_arg s =
     (let t = (case title_arg of None \<Rightarrow> ''Point'' | Some t \<Rightarrow> t)
      in case svc_view s of
           None \<Rightarrow> (Returned (), s)
         | Some v \<Rightarrow>
             (let g = marker lon lat t;
                  s1 = graphics_add v g s
              in case svc_view s1 of
                   None \<Rightarrow> (Returned (), s1)
                 | Some v' \<Rightarrow> popup_open v' [g] (geometry g) s1))"

section \<open>App (src/app/app.ts)\<close>

text \<open>
  The local \<open>view\<close> of the handler (app.ts lines 68-70):
  \<open>event?.detail?.view ?? event.target?.view\<close>. The event itself is never missing.
\<close>

definition detail_path :: "event \<Rightarrow> view_ref option" where
  "detail_path e = (case detail e of None \<Rightarrow> None | Some d \<Rightarrow> detail_view d)"

definition target_path :: "event \<Rightarrow> view_ref option" where
  "target_path e = (case target e of None \<Rightarrow> None | Some t \<Rightarrow> target_view t)"

definition event_view :: "event \<Rightarrow> view_ref option" where
  "event_view e = (case detail_path e of Some v \<Rightarrow> Some v | None \<Rightarrow> target_path e)"

definition arcgisViewReadyChange :: "event \<Rightarrow> unit js" where
  "arcgisViewReadyChange e s =
     (let s0 = console_out (LogFired e) s
      in case event_view e of
           None \<Rightarrow> (Returned (), console_out WarnViewNotFound s0)
         | Some v \<Rightarrow>
             andThen (setView v)
               (andThen updateHeaderFromPortalItem
                 (andThen (hideLoader (Some ''view ready''))
                   (andThen hideLoaderOnFirstLayerCreate
                     (setTimeout TimeoutFallback 5000))))
               (console_out (LogViewReady v) s0))"

section \<open>What the environment does later\<close>

text \<open>Running a registered callback, for the listener it belongs to.\<close>

definition run_listener :: "view_ref \<Rightarrow> listener \<Rightarrow> state \<Rightarrow> state" where
  "run_listener v l s =
     (case cb l of
        HideLoaderThenRemove \<Rightarrow>
          handle_remove v (lid l) (snd (hideLoader (Some ''layerview-create'') s)))"

text \<open>
  The view emits an event: every listener registered for that name when the event is
  emitted runs, in registration order.
\<close>

definition emit_targets :: "view_ref \<Rightarrow> string \<Rightarrow> state \<Rightarrow> listener list" where
  "emit_targets v name s = filter (\<lambda>l. evname l = name) (listeners (heap s v))"

definition emit :: "view_ref \<Rightarrow> string \<Rightarrow> state \<Rightarrow> state" where
  "emit v name s = fold (run_listener v) (emit_targets v name s) s"

text \<open>A timer fires: its callback runs.\<close>

definition fire_timer :: "timer_callback \<Rightarrow> unit js" where
  "fire_timer c s = (case c of TimeoutFallback \<Rightarrow> hideLoader (Some ''timeout fallback'') s)"

text \<open>
  Everything that can happen after the page has loaded: the view emits an event, the
  \<open>i\<close>-th pending timer fires and leaves the queue, the map element reports a ready
  view, or some caller uses the service. An exception that escapes a handler ends that
  handler only; the state it leaves is the state the next action finds.
\<close>

datatype action =
    Emit view_ref string
  | TimerFires nat
  | ViewReady event
  | CallSetView view_ref
  | CallUpdateHeader
  | CallHideLoader "string option"
  | CallHideLoaderOnFirstLayerCreate
  | CallGoTo "number \<times> number" "number option"
  | CallClearGraphics
  | CallDropMarker number number "string option"

fun step :: "action \<Rightarrow> state \<Rightarrow> state" where
  "step (Emit v name) s = emit v name s"
| "step (TimerFires i) s =
     (if i < length (timers s)
      then snd (fire_timer (fst (timers s ! i))
                  (s\<lparr>timers := take i (timers s) @ drop (Suc i) (timers s)\<rparr>))
      else s)"
| "step (ViewReady e) s = snd (arcgisViewReadyChange e s)"
| "step (CallSetView v) s = snd (setView v s)"
| "step CallUpdateHeader s = snd (updateHeaderFromPortalItem s)"
| "step (CallHideLoader r) s = snd (hideLoader r s)"
| "step CallHideLoaderOnFirstLayerCreate s = snd (hideLoaderOnFirstLayerCreate s)"
| "step (CallGoTo c z) s = snd (goTo c z s)"
| "step CallClearGraphics s = snd (clearGraphics s)"
| "step (CallDropMarker lon lat t) s = snd (dropMarker lon lat t s)"

fun run :: "action list \<Rightarrow> state \<Rightarrow> state" where
  "run [] s = s"
| "run (a # as) s = run as (step a s)"

text \<open>
  How often an action taken in state \<open>s\<close> runs the callback registered on view \<open>v\<close>
  under handle \<open>h\<close>: only an emitted event runs listeners, once for each registration
  it finds. For the closure of \<open>hideLoaderOnFirstLayerCreate\<close> each run is one call
  \<open>hideLoader('layerview-create')\<close>.
\<close>

fun invoked :: "view_ref \<Rightarrow> nat \<Rightarrow> action \<Rightarrow> state \<Rightarrow> nat" where
  "invoked v h (Emit v' name) s =
     (if v' = v then length (filter (\<lambda>l. lid l = h) (emit_targets v name s)) else 0)"
| "invoked v h _ s = 0"

fun invocations :: "view_ref \<Rightarrow> nat \<Rightarrow> action list \<Rightarrow> state \<Rightarrow> nat" where
  "invocations v h [] s = 0"
| "invocations v h (a # as) s = invoked v h a s + invocations v h as (step a s)"

text \<open>
  The handles a view has given out are all older than the next one it will give out:
  \<open>on\<close> never returns a handle that is already registered.
\<close>

definition handles_fresh :: "view_ref \<Rightarrow> state \<Rightarrow> bool" where
  "handles_fresh v s = list_all (\<lambda>l. lid l < nextHandle (heap s v)) (listeners (heap s v))"

text \<open>The registrations of view \<open>v\<close> that carry handle \<open>h\<close>.\<close>

definition registered :: "view_ref \<Rightarrow> nat \<Rightarrow> state \<Rightarrow> listener list" where
  "registered v h s = filter (\<lambda>l. lid l = h) (listeners (heap s v))"

text \<open>
  What an action other than an emitted event does to the listeners of a view: it keeps
  them, or it registers one more under the next handle.
\<close>

definition kept_or_added :: "mapview \<Rightarrow> mapview \<Rightarrow> bool" where
  "kept_or_added m m' \<longleftrightarrow>
     (listeners m' = listeners m \<and> nextHandle m' = nextHandle m)
     \<or> (\<exists>n c. listeners m' = listeners m @ [\<lparr>lid = nextHandle m, evname = n, cb = c\<rparr>]
           \<and> nextHandle m' = Suc (nextHandle m))"

section \<open>The header the specification prescribes\<close>

text \<open>
  The five header fields as the specification lists them for a portal item: heading from
  the title, description from the snippet or the empty string when the snippet is
  absent, thumbnail from the thumbnail URL, link target from the item page URL, and the
  fixed accessibility label.
\<close>

definition spec_header :: "portal_item \<Rightarrow> navigation_logo" where
  "spec_header p =
     \<lparr>heading = title p,
      description = (if snippet p = JUndefined \<or> snippet p = JNull then JString [] else snippet p),
      thumbnail = thumbnailUrl p,
      href = itemPageUrl p,
      label = JString ''Thumbnail of map''\<rparr>"

section \<open>Example objects\<close>

definition parks_item :: portal_item where
  "parks_item =
     \<lparr>title = JString ''Parks'', snippet = JUndefined,
      thumbnailUrl = JString ''t.png'', itemPageUrl = JString ''p.html''\<rparr>"

definition blank_view :: mapview where
  "blank_view =
     \<lparr>view_map = None, graphics = [], view_popup = None, listeners = [],
      nextHandle = 0, goToCalls = []\<rparr>"

definition closed_popup :: popup where
  "closed_popup = \<lparr>popup_visible = False, popup_features = [], popup_location = None\<rparr>"

definition parks_view :: mapview where
  "parks_view =
     blank_view\<lparr>view_map := Some \<lparr>portalItem = Some parks_item\<rparr>,
                view_popup := Some closed_popup\<rparr>"

definition blank_logo :: navigation_logo where
  "blank_logo =
     \<lparr>heading = JUndefined, description = JUndefined, thumbnail = JUndefined,
      href = JUndefined, label = JUndefined\<rparr>"

text \<open>
  A page with both elements, the loader showing, and two views: view 1 shows the Parks
  web map and has a popup, view 2 has neither.
\<close>

definition page :: state where
  "page = new_MapService ((\<lambda>_. blank_view)(1 := parks_view))
            (Some blank_logo) (Some \<lparr>hidden = False\<rparr>)"

text \<open>The ready event of the map element: no \<open>detail\<close>, view 1 at \<open>target.view\<close>.\<close>

definition ready_event :: event where
  "ready_event = \<lparr>detail = None, target = Some \<lparr>target_view = Some 1\<rparr>\<rparr>"

section \<open>Each operation, case by case\<close>

lemma coalesce_eq: "coalesce a b = (if a = JUndefined \<or> a = JNull then b else a)"
  by (cases a) simp_all

lemma logo_all_fields:
  "(n::navigation_logo)\<lparr>heading := a, description := b, thumbnail := c, href := d, label := e\<rparr>
     = \<lparr>heading = a, description = b, thumbnail = c, href = d, label = e\<rparr>"
  by (cases n) simp

lemma updateHeader_writes:
  assumes "svc_view s = Some v" "view_map (heap s v) = Some w" "portalItem w = Some p" "navLogo s = Some n"
  shows "updateHeaderFromPortalItem s = (Returned (), s\<lparr>navLogo := Some (spec_header p)\<rparr>)"
  using assms
  by (simp add: updateHeaderFromPortalItem_def Let_def coalesce_eq logo_all_fields spec_header_def)

lemma updateHeader_skips:
  assumes "svc_view s = None
        \<or> (\<exists>v. svc_view s = Some v \<and> view_map (heap s v) = None)
        \<or> (\<exists>v w. svc_view s = Some v \<and> view_map (heap s v) = Some w \<and> portalItem w = None)
        \<or> navLogo s = None"
  shows "updateHeaderFromPortalItem s = (Returned (), s)"
  using assms by (auto simp add: updateHeaderFromPortalItem_def Let_def split: option.splits)

lemma updateHeader_cases:
  "updateHeaderFromPortalItem s = (Returned (), s)
     \<or> (\<exists>p. updateHeaderFromPortalItem s = (Returned (), s\<lparr>navLogo := Some (spec_header p)\<rparr>))"
proof (cases "svc_view s")
  case None
  then show ?thesis by (simp add: updateHeader_skips)
next
  case v: (Some v)
  show ?thesis
  proof (cases "view_map (heap s v)")
    case None
    with v show ?thesis by (simp add: updateHeader_skips)
  next
    case w: (Some w)
    show ?thesis
    proof (cases "portalItem w")
      case None
      with v w show ?thesis by (simp add: updateHeader_skips)
    next
      case p: (Some p)
      show ?thesis
      proof (cases "navLogo s")
        case None
        then show ?thesis by (simp add: updateHeader_skips)
      next
        case n: (Some n)
        from updateHeader_writes [OF v w p n] show ?thesis by blast
      qed
    qed
  qed
qed

lemma updateHeader_returns: "fst (updateHeaderFromPortalItem s) = Returned ()"
  using updateHeader_cases [of s] by auto

lemma updateHeader_frame:
  "svc_view (snd (updateHeaderFromPortalItem s)) = svc_view s"
  "heap (snd (updateHeaderFromPortalItem s)) = heap s"
  "loader (snd (updateHeaderFromPortalItem s)) = loader s"
  "console (snd (updateHeaderFromPortalItem s)) = console s"
  "timers (snd (updateHeaderFromPortalItem s)) = timers s"
  using updateHeader_cases [of s] by auto

lemma hideLoader_visible:
  assumes "loader s = Some l" "\<not> hidden l"
  shows "hideLoader r s =
           (Returned (),
            s\<lparr>loader := Some (l\<lparr>hidden := True\<rparr>),
              console := console s @ [LogLoaderHidden (case r of None \<Rightarrow> ''view ready'' | Some x \<Rightarrow> x)]\<rparr>)"
  using assms by (simp add: hideLoader_def Let_def console_out_def)

lemma hideLoader_noop:
  assumes "loader s = None \<or> (\<exists>l. loader s = Some l \<and> hidden l)"
  shows "hideLoader r s = (Returned (), s)"
  using assms by (auto simp: hideLoader_def Let_def)

lemma hideLoader_returns: "fst (hideLoader r s) = Returned ()"
  by (simp add: hideLoader_def Let_def split: option.splits)

lemma hideLoader_frame:
  "svc_view (snd (hideLoader r s)) = svc_view s"
  "heap (snd (hideLoader r s)) = heap s"
  "navLogo (snd (hideLoader r s)) = navLogo s"
  "timers (snd (hideLoader r s)) = timers s"
  by (simp_all add: hideLoader_def Let_def console_out_def split: option.splits)

lemma hideLoader_loader:
  "loader (snd (hideLoader r s)) = map_option (\<lambda>l. l\<lparr>hidden := True\<rparr>) (loader s)"
  by (simp add: hideLoader_def Let_def console_out_def split: option.splits)

lemma hideLoader_hidden: "loader (snd (hideLoader r s)) = Some l \<Longrightarrow> hidden l"
  by (auto simp add: hideLoader_loader)

lemma hideLoader_twice:
  "hideLoader r2 (snd (hideLoader r1 s)) = (Returned (), snd (hideLoader r1 s))"
  by (rule hideLoader_noop) (cases "loader s"; simp add: hideLoader_loader)

lemma hideLoaderOnFirstLayerCreate_none:
  "svc_view s = None \<Longrightarrow> hideLoaderOnFirstLayerCreate s = (Returned (), s)"
  by (simp add: hideLoaderOnFirstLayerCreate_def)

lemma hideLoaderOnFirstLayerCreate_some:
  "svc_view s = Some v \<Longrightarrow>
     hideLoaderOnFirstLayerCreate s =
       (Returned (),
        s\<lparr>heap := (heap s)(v := (heap s v)
             \<lparr>listeners := listeners (heap s v) @
                 [\<lparr>lid = nextHandle (heap s v), evname = ''layerview-create'',
                   cb = HideLoaderThenRemove\<rparr>],
              nextHandle := Suc (nextHandle (heap s v))\<rparr>)\<rparr>)"
  by (simp add: hideLoaderOnFirstLayerCreate_def view_on_def update_view_def Let_def)

lemma hideLoaderOnFirstLayerCreate_returns: "fst (hideLoaderOnFirstLayerCreate s) = Returned ()"
  by (simp add: hideLoaderOnFirstLayerCreate_def split: option.splits)

lemma hideLoaderOnFirstLayerCreate_frame:
  "svc_view (snd (hideLoaderOnFirstLayerCreate s)) = svc_view s"
  "navLogo (snd (hideLoaderOnFirstLayerCreate s)) = navLogo s"
  "loader (snd (hideLoaderOnFirstLayerCreate s)) = loader s"
  "console (snd (hideLoaderOnFirstLayerCreate s)) = console s"
  "timers (snd (hideLoaderOnFirstLayerCreate s)) = timers s"
  by (simp_all add: hideLoaderOnFirstLayerCreate_def view_on_def update_view_def Let_def
        split: option.splits)

lemma goTo_none: "svc_view s = None \<Longrightarrow> goTo c z s = (Returned None, s)"
  by (simp add: goTo_def Let_def)

lemma goTo_frame: "svc_view (snd (goTo c z s)) = svc_view s"
  by (simp add: goTo_def view_goTo_def update_view_def Let_def split: option.splits)

lemma clearGraphics_none: "svc_view s = None \<Longrightarrow> clearGraphics s = (Returned (), s)"
  by (simp add: clearGraphics_def)

lemma clearGraphics_frame: "svc_view (snd (clearGraphics s)) = svc_view s"
  by (simp add: clearGraphics_def graphics_removeAll_def update_view_def split: option.splits)

lemma dropMarker_none: "svc_view s = None \<Longrightarrow> dropMarker lon lat t s = (Returned (), s)"
  by (simp add: dropMarker_def Let_def)

lemma dropMarker_some:
  "svc_view s = Some v \<Longrightarrow>
     dropMarker lon lat t s =
       popup_open v [marker lon lat (case t of None \<Rightarrow> ''Point'' | Some x \<Rightarrow> x)]
         (geometry (marker lon lat (case t of None \<Rightarrow> ''Point'' | Some x \<Rightarrow> x)))
         (graphics_add v (marker lon lat (case t of None \<Rightarrow> ''Point'' | Some x \<Rightarrow> x)) s)"
  by (simp add: dropMarker_def Let_def graphics_add_def update_view_def)

lemma popup_open_frame: "svc_view (snd (popup_open v fs loc s)) = svc_view s"
  by (simp add: popup_open_def update_view_def split: option.splits)

lemma dropMarker_frame: "svc_view (snd (dropMarker lon lat t s)) = svc_view s"
  by (cases "svc_view s")
     (simp_all add: dropMarker_none dropMarker_some popup_open_frame graphics_add_def update_view_def)

lemma step_setView: "setView v s = (Returned (), s\<lparr>svc_view := Some v\<rparr>)"
  by (simp add: setView_def)

lemma andThen_returned: "fst (f s) = Returned () \<Longrightarrow> andThen f g s = g (snd (f s))"
  by (cases "f s") (simp add: andThen_def)

lemma setView_returns: "fst (setView v s) = Returned ()"
  by (simp add: setView_def)

lemma ready_no_view:
  "event_view e = None \<Longrightarrow>
     arcgisViewReadyChange e s =
       (Returned (), s\<lparr>console := console s @ [LogFired e, WarnViewNotFound]\<rparr>)"
  by (simp add: arcgisViewReadyChange_def console_out_def Let_def)

lemma ready_with_view:
  assumes "event_view e = Some v"
  shows "arcgisViewReadyChange e s =
     setTimeout TimeoutFallback 5000
       (snd (hideLoaderOnFirstLayerCreate
         (snd (hideLoader (Some ''view ready'')
           (snd (updateHeaderFromPortalItem
             (snd (setView v
               (console_out (LogViewReady v) (console_out (LogFired e) s))))))))))"
  using assms
  by (simp add: arcgisViewReadyChange_def Let_def andThen_returned setView_returns
        updateHeader_returns hideLoader_returns hideLoaderOnFirstLayerCreate_returns)

lemma setTimeout_frame:
  "fst (setTimeout c d s) = Returned ()"
  "svc_view (snd (setTimeout c d s)) = svc_view s"
  "heap (snd (setTimeout c d s)) = heap s"
  "navLogo (snd (setTimeout c d s)) = navLogo s"
  "loader (snd (setTimeout c d s)) = loader s"
  "console (snd (setTimeout c d s)) = console s"
  "timers (snd (setTimeout c d s)) = timers s @ [(c, d)]"
  by (simp_all add: setTimeout_def)

lemma ready_returns: "fst (arcgisViewReadyChange e s) = Returned ()"
  by (cases "event_view e") (simp_all add: ready_no_view ready_with_view setTimeout_frame)

lemma ready_stores:
  "event_view e = Some v \<Longrightarrow> svc_view (snd (arcgisViewReadyChange e s)) = Some v"
  by (simp add: ready_with_view setTimeout_frame hideLoaderOnFirstLayerCreate_frame
        hideLoader_frame updateHeader_frame setView_def console_out_def)

lemma ready_timers:
  "event_view e = Some v \<Longrightarrow>
     timers (snd (arcgisViewReadyChange e s)) = timers s @ [(TimeoutFallback, 5000)]"
  by (simp add: ready_with_view setTimeout_frame hideLoaderOnFirstLayerCreate_frame
        hideLoader_frame updateHeader_frame setView_def console_out_def)

lemma ready_view_objects:
  "event_view e = Some v \<Longrightarrow>
     heap (snd (arcgisViewReadyChange e s)) =
       (heap s)(v := (heap s v)
          \<lparr>listeners := listeners (heap s v) @
              [\<lparr>lid = nextHandle (heap s v), evname = ''layerview-create'',
                cb = HideLoaderThenRemove\<rparr>],
           nextHandle := Suc (nextHandle (heap s v))\<rparr>)"
  by (simp add: ready_with_view setTimeout_frame hideLoaderOnFirstLayerCreate_some
        hideLoader_frame updateHeader_frame setView_def console_out_def)

lemma ready_loader:
  "event_view e = Some v \<Longrightarrow>
     loader (snd (arcgisViewReadyChange e s)) = map_option (\<lambda>l. l\<lparr>hidden := True\<rparr>) (loader s)"
  by (simp add: ready_with_view setTimeout_frame hideLoaderOnFirstLayerCreate_frame
        hideLoader_loader updateHeader_frame setView_def console_out_def)

lemma ready_header:
  "event_view e = Some v \<Longrightarrow>
     navLogo (snd (arcgisViewReadyChange e s)) =
       navLogo (snd (updateHeaderFromPortalItem (s\<lparr>svc_view := Some v\<rparr>)))"
  by (simp add: ready_with_view setTimeout_frame hideLoaderOnFirstLayerCreate_frame
        hideLoader_frame setView_def console_out_def updateHeaderFromPortalItem_def Let_def
        split: option.splits)

lemma dropMarker_popup_missing:
  assumes "svc_view s = Some v" "view_popup (heap s v) = None"
  shows "dropMarker lon lat t s =
           (Thrown TypeError,
            graphics_add v (marker lon lat (case t of None \<Rightarrow> ''Point'' | Some x \<Rightarrow> x)) s)"
  using assms
  by (simp add: dropMarker_some popup_open_def graphics_add_def update_view_def)

lemma dropMarker_popup_present:
  assumes "svc_view s = Some v" "view_popup (heap s v) = Some p"
  shows "dropMarker lon lat t s =
           (Returned (),
            s\<lparr>heap := (heap s)(v := (heap s v)
                \<lparr>graphics := graphics (heap s v) @
                    [marker lon lat (case t of None \<Rightarrow> ''Point'' | Some x \<Rightarrow> x)],
                 view_popup := Some (p
                   \<lparr>popup_visible := True,
                    popup_features := [marker lon lat (case t of None \<Rightarrow> ''Point'' | Some x \<Rightarrow> x)],
                    popup_location := Some \<lparr>longitude = lon, latitude = lat\<rparr>\<rparr>)\<rparr>)\<rparr>)"
  using assms
  by (simp add: dropMarker_some popup_open_def graphics_add_def update_view_def marker_def)

lemma dropMarker_graphics:
  assumes "svc_view s = Some v"
  shows "graphics (heap (snd (dropMarker lon lat t s)) v) =
           graphics (heap s v) @ [marker lon lat (case t of None \<Rightarrow> ''Point'' | Some x \<Rightarrow> x)]"
proof (cases "view_popup (heap s v)")
  case None
  with assms show ?thesis
    by (simp add: dropMarker_popup_missing graphics_add_def update_view_def)
next
  case (Some p)
  with assms show ?thesis
    by (simp add: dropMarker_popup_present)
qed

lemma mapview_listeners_same [simp]: "(m::mapview)\<lparr>listeners := listeners m\<rparr> = m"
  by (cases m) simp

lemma run_listener_heap:
  "heap (run_listener v l s) =
     (heap s)(v := (heap s v)\<lparr>listeners := filter (\<lambda>x. lid x \<noteq> lid l) (listeners (heap s v))\<rparr>)"
  by (cases "cb l") (simp add: run_listener_def handle_remove_def update_view_def hideLoader_frame)

lemma run_listener_frame:
  "svc_view (run_listener v l s) = svc_view s"
  "navLogo (run_listener v l s) = navLogo s"
  "timers (run_listener v l s) = timers s"
  "loader (run_listener v l s) = map_option (\<lambda>x. x\<lparr>hidden := True\<rparr>) (loader s)"
  by (cases "cb l"; simp add: run_listener_def handle_remove_def update_view_def hideLoader_frame
        hideLoader_loader)+

lemma fold_run_listener_heap:
  "heap (fold (run_listener v) ls s) =
     (heap s)(v := (heap s v)
        \<lparr>listeners := filter (\<lambda>x. lid x \<notin> lid ` set ls) (listeners (heap s v))\<rparr>)"
proof (induction ls arbitrary: s)
  case Nil
  show ?case by simp
next
  case (Cons l ls)
  have "filter (\<lambda>x. lid x \<notin> lid ` set ls) (filter (\<lambda>x. lid x \<noteq> lid l) xs)
          = filter (\<lambda>x. lid x \<notin> lid ` set (l # ls)) xs" for xs :: "listener list"
    by (induction xs) auto
  then show ?case
    by (simp add: Cons.IH run_listener_heap fun_eq_iff)
qed

lemma fold_run_listener_frame:
  "svc_view (fold (run_listener v) ls s) = svc_view s"
  "navLogo (fold (run_listener v) ls s) = navLogo s"
  "timers (fold (run_listener v) ls s) = timers s"
  by (induction ls arbitrary: s; simp add: run_listener_frame)+

lemma fold_run_listener_loader:
  "loader (fold (run_listener v) ls s) =
     (if ls = [] then loader s else map_option (\<lambda>x. x\<lparr>hidden := True\<rparr>) (loader s))"
proof (induction ls arbitrary: s)
  case Nil
  show ?case by simp
next
  case (Cons l ls)
  show ?case
    by (cases "loader s") (simp_all add: Cons.IH run_listener_frame)
qed

lemma emit_heap:
  "heap (emit v name s) =
     (heap s)(v := (heap s v)
        \<lparr>listeners := filter (\<lambda>x. lid x \<notin> lid ` set (emit_targets v name s))
                         (listeners (heap s v))\<rparr>)"
  by (simp add: emit_def fold_run_listener_heap)

lemma emit_frame:
  "svc_view (emit v name s) = svc_view s"
  "navLogo (emit v name s) = navLogo s"
  "timers (emit v name s) = timers s"
  by (simp_all add: emit_def fold_run_listener_frame)

lemma emit_loader:
  "loader (emit v name s) =
     (if emit_targets v name s = [] then loader s
      else map_option (\<lambda>x. x\<lparr>hidden := True\<rparr>) (loader s))"
  by (simp add: emit_def fold_run_listener_loader)

lemma emit_nextHandle: "nextHandle (heap (emit v name s) u) = nextHandle (heap s u)"
  by (simp add: emit_heap)

lemma emit_registered_other: "u \<noteq> v \<Longrightarrow> registered u h (emit v name s) = registered u h s"
  by (simp add: registered_def emit_heap)

lemma emit_registered_same:
  "registered v h (emit v name s) =
     (if \<exists>l \<in> set (registered v h s). evname l = name then [] else registered v h s)"
proof -
  let ?ls = "listeners (heap s v)"
  let ?T = "lid ` set (filter (\<lambda>l. evname l = name) ?ls)"
  have eq: "registered v h (emit v name s) = filter (\<lambda>l. lid l = h) (filter (\<lambda>x. lid x \<notin> ?T) ?ls)"
    by (simp add: registered_def emit_heap emit_targets_def)
  show ?thesis
  proof (cases "\<exists>l \<in> set (registered v h s). evname l = name")
    case True
    then have "h \<in> ?T"
      by (auto simp: registered_def)
    then have "filter (\<lambda>l. lid l = h) (filter (\<lambda>x. lid x \<notin> ?T) ?ls) = []"
      by (auto simp: filter_empty_conv)
    with eq True show ?thesis by simp
  next
    case False
    then have "h \<notin> ?T"
      by (auto simp: registered_def)
    then have "filter (\<lambda>l. lid l = h) (filter (\<lambda>x. lid x \<notin> ?T) ?ls) = filter (\<lambda>l. lid l = h) ?ls"
      by (auto intro: filter_cong)
    with eq False show ?thesis by (simp add: registered_def)
  qed
qed

lemma invoked_registered:
  "invoked v h (Emit v name) s = length (filter (\<lambda>l. evname l = name) (registered v h s))"
proof -
  have "filter (\<lambda>l. lid l = h) (filter (\<lambda>l. evname l = name) xs)
          = filter (\<lambda>l. evname l = name) (filter (\<lambda>l. lid l = h) xs)" for xs :: "listener list"
    by (induction xs) auto
  then show ?thesis
    by (simp add: emit_targets_def registered_def)
qed

lemma kept_refl: "kept_or_added m m"
  by (simp add: kept_or_added_def)

lemma kept_heap_eq: "heap s' = heap s \<Longrightarrow> kept_or_added (heap s u) (heap s' u)"
  by (simp add: kept_or_added_def)

lemma hideLoaderOnFirstLayerCreate_kept:
  "kept_or_added (heap s u) (heap (snd (hideLoaderOnFirstLayerCreate s)) u)"
proof (cases "svc_view s")
  case None
  then show ?thesis by (simp add: hideLoaderOnFirstLayerCreate_none kept_refl)
next
  case (Some v)
  then show ?thesis
    by (simp add: hideLoaderOnFirstLayerCreate_some kept_or_added_def)
qed

lemma ready_kept: "kept_or_added (heap s u) (heap (snd (arcgisViewReadyChange e s)) u)"
proof (cases "event_view e")
  case None
  then show ?thesis by (simp add: ready_no_view kept_refl)
next
  case (Some v)
  then show ?thesis
    by (simp add: ready_view_objects kept_or_added_def)
qed

lemma goTo_kept: "kept_or_added (heap s u) (heap (snd (goTo c z s)) u)"
  by (simp add: goTo_def view_goTo_def update_view_def Let_def kept_or_added_def
        split: option.splits)

lemma clearGraphics_kept: "kept_or_added (heap s u) (heap (snd (clearGraphics s)) u)"
  by (simp add: clearGraphics_def graphics_removeAll_def update_view_def kept_or_added_def
        split: option.splits)

lemma dropMarker_kept: "kept_or_added (heap s u) (heap (snd (dropMarker lon lat t s)) u)"
proof (cases "svc_view s")
  case None
  then show ?thesis by (simp add: dropMarker_none kept_refl)
next
  case (Some v)
  then show ?thesis
    by (simp add: dropMarker_some popup_open_def graphics_add_def update_view_def
          kept_or_added_def split: option.splits)
qed

lemma fire_timer_heap: "heap (snd (fire_timer c s)) = heap s"
  by (cases c) (simp add: fire_timer_def hideLoader_frame)

lemma step_kept:
  assumes "\<And>v name. a \<noteq> Emit v name"
  shows "kept_or_added (heap s u) (heap (step a s) u)"
proof (cases a)
  case (Emit v name)
  with assms show ?thesis by blast
next
  case (TimerFires i)
  then show ?thesis by (simp add: fire_timer_heap kept_refl)
next
  case (ViewReady e)
  then show ?thesis by (simp add: ready_kept)
next
  case (CallSetView v)
  then show ?thesis by (simp add: setView_def kept_refl)
next
  case CallUpdateHeader
  then show ?thesis by (simp add: updateHeader_frame kept_refl)
next
  case (CallHideLoader r)
  then show ?thesis by (simp add: hideLoader_frame kept_refl)
next
  case CallHideLoaderOnFirstLayerCreate
  then show ?thesis by (simp add: hideLoaderOnFirstLayerCreate_kept)
next
  case (CallGoTo c z)
  then show ?thesis by (simp add: goTo_kept)
next
  case CallClearGraphics
  then show ?thesis by (simp add: clearGraphics_kept)
next
  case (CallDropMarker lon lat t)
  then show ?thesis by (simp add: dropMarker_kept)
qed

lemma kept_registered:
  assumes "kept_or_added (heap s v) (heap s' v)" "h < nextHandle (heap s v)"
  shows "registered v h s' = registered v h s \<and> h < nextHandle (heap s' v)"
  using assms by (auto simp: kept_or_added_def registered_def)

lemma kept_fresh:
  assumes "kept_or_added (heap s v) (heap s' v)" "handles_fresh v s"
  shows "handles_fresh v s'"
  using assms by (auto simp: kept_or_added_def handles_fresh_def list_all_iff less_Suc_eq)

lemma step_registered:
  assumes "h < nextHandle (heap s v)"
  shows "registered v h (step a s) =
           (if \<exists>name. a = Emit v name \<and> (\<exists>l \<in> set (registered v h s). evname l = name)
            then [] else registered v h s)
         \<and> h < nextHandle (heap (step a s) v)"
proof (cases "\<exists>u name. a = Emit u name")
  case True
  then obtain u name where a: "a = Emit u name" by blast
  show ?thesis
  proof (cases "u = v")
    case True
    with a assms show ?thesis
      by (simp add: emit_registered_same emit_nextHandle)
  next
    case False
    with a assms show ?thesis
      by (simp add: emit_registered_other emit_nextHandle)
  qed
next
  case False
  then have "kept_or_added (heap s v) (heap (step a s) v)"
    by (intro step_kept) blast
  from kept_registered [OF this assms] False show ?thesis
    by auto
qed

lemma step_fresh: "handles_fresh v s \<Longrightarrow> handles_fresh v (step a s)"
proof (cases "\<exists>u name. a = Emit u name")
  case True
  assume f: "handles_fresh v s"
  from True obtain u name where a: "a = Emit u name" by blast
  from f show ?thesis
    by (auto simp: a handles_fresh_def emit_heap list_all_iff)
next
  case False
  assume f: "handles_fresh v s"
  from False have "kept_or_added (heap s v) (heap (step a s) v)"
    by (intro step_kept) blast
  from kept_fresh [OF this f] show ?thesis .
qed

lemma invoked_cases:
  "invoked v h a s =
     (if \<exists>name. a = Emit v name
      then length (filter (\<lambda>l. a = Emit v (evname l)) (registered v h s)) else 0)"
proof (cases a)
  case (Emit u name)
  show ?thesis
  proof (cases "u = v")
    case True
    have "filter (\<lambda>l. evname l = name) xs = filter (\<lambda>l. name = evname l) xs" for xs :: "listener list"
      by (rule filter_cong) auto
    with True Emit show ?thesis
      by (simp add: invoked_registered del: invoked.simps)
  next
    case False
    with Emit show ?thesis by simp
  qed
qed simp_all

lemma run_append: "run (xs @ ys) s = run ys (run xs s)"
  by (induction xs arbitrary: s) simp_all

lemma invocations_append:
  "invocations v h (xs @ ys) s = invocations v h xs s + invocations v h ys (run xs s)"
  by (induction xs arbitrary: s) simp_all

lemma unregistered_never_invoked:
  assumes "registered v h s = []" "h < nextHandle (heap s v)"
  shows "invocations v h acts s = 0"
  using assms
proof (induction acts arbitrary: s)
  case Nil
  show ?case by simp
next
  case (Cons a acts)
  from step_registered [OF Cons.prems(2), of a] Cons.prems(1)
  have "registered v h (step a s) = []" "h < nextHandle (heap (step a s) v)"
    by simp_all
  then have "invocations v h acts (step a s) = 0"
    by (rule Cons.IH)
  moreover from Cons.prems(1) have "invoked v h a s = 0"
    by (simp add: invoked_cases)
  ultimately show ?case by simp
qed

lemma registered_once_invoked_once:
  assumes "registered v h s = [l]" "h < nextHandle (heap s v)"
  shows "invocations v h acts s \<le> 1"
  using assms
proof (induction acts arbitrary: s)
  case Nil
  show ?case by simp
next
  case (Cons a acts)
  note st = step_registered [OF Cons.prems(2), of a]
  show ?case
  proof (cases "a = Emit v (evname l)")
    case True
    with st Cons.prems(1)
    have "registered v h (step a s) = []" "h < nextHandle (heap (step a s) v)"
      by simp_all
    then have "invocations v h acts (step a s) = 0"
      by (rule unregistered_never_invoked)
    moreover from True Cons.prems(1) have "invoked v h a s = 1"
      by (simp add: invoked_cases)
    ultimately show ?thesis by simp
  next
    case False
    with st Cons.prems(1)
    have "registered v h (step a s) = [l]" "h < nextHandle (heap (step a s) v)"
      by auto
    then have "invocations v h acts (step a s) \<le> 1"
      by (rule Cons.IH)
    moreover from False Cons.prems(1) have "invoked v h a s = 0"
      by (auto simp add: invoked_cases)
    ultimately show ?thesis by simp
  qed
qed

lemma registered_until_event:
  assumes "registered v h s = [l]" "h < nextHandle (heap s v)" "Emit v (evname l) \<notin> set pre"
  shows "invocations v h pre s = 0 \<and> registered v h (run pre s) = [l]
         \<and> h < nextHandle (heap (run pre s) v)"
  using assms
proof (induction pre arbitrary: s)
  case Nil
  then show ?case by simp
next
  case (Cons a pre)
  from Cons.prems(3) have ne: "a \<noteq> Emit v (evname l)" and rest: "Emit v (evname l) \<notin> set pre"
    by auto
  from step_registered [OF Cons.prems(2), of a] Cons.prems(1) ne
  have r: "registered v h (step a s) = [l]" and n: "h < nextHandle (heap (step a s) v)"
    by auto
  from ne Cons.prems(1) have "invoked v h a s = 0"
    by (auto simp add: invoked_cases)
  with Cons.IH [OF r n rest] show ?case
    by simp
qed

lemma registered_at_event:
  assumes "registered v h s = [l]"
  shows "invoked v h (Emit v (evname l)) s = 1"
    and "registered v h (emit v (evname l) s) = []"
    and "loader (emit v (evname l) s) = map_option (\<lambda>x. x\<lparr>hidden := True\<rparr>) (loader s)"
proof -
  from assms show "invoked v h (Emit v (evname l)) s = 1"
    by (simp add: invoked_cases)
  from assms show "registered v h (emit v (evname l) s) = []"
    by (simp add: emit_registered_same)
  have "l \<in> set (registered v h s)"
    using assms by simp
  then have "l \<in> set (emit_targets v (evname l) s)"
    by (simp add: registered_def emit_targets_def)
  then have "emit_targets v (evname l) s \<noteq> []"
    by auto
  then show "loader (emit v (evname l) s) = map_option (\<lambda>x. x\<lparr>hidden := True\<rparr>) (loader s)"
    by (simp add: emit_loader)
qed

lemma subscription_registered:
  assumes "svc_view s = Some v" "handles_fresh v s"
  shows "registered v (nextHandle (heap s v)) (snd (hideLoaderOnFirstLayerCreate s)) =
           [\<lparr>lid = nextHandle (heap s v), evname = ''layerview-create'', cb = HideLoaderThenRemove\<rparr>]"
    and "nextHandle (heap s v) < nextHandle (heap (snd (hideLoaderOnFirstLayerCreate s)) v)"
    and "listeners (heap (snd (hideLoaderOnFirstLayerCreate s)) v) =
           listeners (heap s v) @
             [\<lparr>lid = nextHandle (heap s v), evname = ''layerview-create'', cb = HideLoaderThenRemove\<rparr>]"
proof -
  from assms(2) have "filter (\<lambda>l. lid l = nextHandle (heap s v)) (listeners (heap s v)) = []"
    by (auto simp: handles_fresh_def list_all_iff filter_empty_conv)
  with assms(1)
  show "registered v (nextHandle (heap s v)) (snd (hideLoaderOnFirstLayerCreate s)) =
           [\<lparr>lid = nextHandle (heap s v), evname = ''layerview-create'', cb = HideLoaderThenRemove\<rparr>]"
    by (simp add: hideLoaderOnFirstLayerCreate_some registered_def)
  from assms(1)
  show "nextHandle (heap s v) < nextHandle (heap (snd (hideLoaderOnFirstLayerCreate s)) v)"
    by (simp add: hideLoaderOnFirstLayerCreate_some)
  from assms(1)
  show "listeners (heap (snd (hideLoaderOnFirstLayerCreate s)) v) =
           listeners (heap s v) @
             [\<lparr>lid = nextHandle (heap s v), evname = ''layerview-create'', cb = HideLoaderThenRemove\<rparr>]"
    by (simp add: hideLoaderOnFirstLayerCreate_some)
qed

section \<open>The claims of the specification\<close>

text \<open>
  Claim C1. When the stored view has a map with a portal item and the header element
  exists, \<open>updateHeaderFromPortalItem\<close> leaves the header with exactly the five
  prescribed fields (description is the empty string when the snippet is \<open>null\<close> or
  \<open>undefined\<close>) and changes nothing else; when the view, its map, the portal item or
  the element is missing it changes nothing. There is no third outcome.
\<close>

theorem updateHeaderFromPortalItem_all_or_none:
  "(\<forall>v w p n. svc_view s = Some v \<and> view_map (heap s v) = Some w \<and> portalItem w = Some p
        \<and> navLogo s = Some n \<longrightarrow>
      updateHeaderFromPortalItem s = (Returned (), s\<lparr>navLogo := Some (spec_header p)\<rparr>))
   \<and> ((svc_view s = None
        \<or> (\<exists>v. svc_view s = Some v \<and> view_map (heap s v) = None)
        \<or> (\<exists>v w. svc_view s = Some v \<and> view_map (heap s v) = Some w \<and> portalItem w = None)
        \<or> navLogo s = None) \<longrightarrow>
      updateHeaderFromPortalItem s = (Returned (), s))
   \<and> (updateHeaderFromPortalItem s = (Returned (), s)
        \<or> (\<exists>p. updateHeaderFromPortalItem s = (Returned (), s\<lparr>navLogo := Some (spec_header p)\<rparr>)))"
  using updateHeader_writes [of s] updateHeader_skips [of s] updateHeader_cases [of s]
  by blast

theorem updateHeaderFromPortalItem_all_or_none_witness:
  "updateHeaderFromPortalItem (snd (setView 1 page)) =
     (Returned (),
      (snd (setView 1 page))\<lparr>navLogo := Some
         \<lparr>heading = JString ''Parks'', description = JString [], thumbnail = JString ''t.png'',
          href = JString ''p.html'', label = JString ''Thumbnail of map''\<rparr>\<rparr>)
   \<and> updateHeaderFromPortalItem page = (Returned (), page)"
proof -
  let ?s = "snd (setView 1 page)"
  have h: "svc_view ?s = Some 1 \<and> view_map (heap ?s 1) = Some \<lparr>portalItem = Some parks_item\<rparr>
        \<and> portalItem \<lparr>portalItem = Some parks_item\<rparr> = Some parks_item
        \<and> navLogo ?s = Some blank_logo"
    by (simp add: setView_def page_def new_MapService_def parks_view_def)
  have n: "svc_view page = None"
    by (simp add: page_def new_MapService_def)
  from updateHeaderFromPortalItem_all_or_none [of ?s] h
  have "updateHeaderFromPortalItem ?s = (Returned (), ?s\<lparr>navLogo := Some (spec_header parks_item)\<rparr>)"
    by blast
  moreover from updateHeaderFromPortalItem_all_or_none [of page] n
  have "updateHeaderFromPortalItem page = (Returned (), page)"
    by blast
  ultimately show ?thesis
    by (simp add: spec_header_def parks_item_def)
qed

text \<open>
  Claim C2. A second \<open>hideLoader\<close> right after a first one returns without changing
  anything, whatever the reasons given. A single call on a missing or already hidden
  loader changes nothing; on a visible loader the two calls together hide it and print
  one line, with the reason of the first call.
\<close>

theorem hideLoader_idempotent:
  "hideLoader r2 (snd (hideLoader r1 s)) = (Returned (), snd (hideLoader r1 s))
   \<and> ((loader s = None \<or> (\<exists>l. loader s = Some l \<and> hidden l)) \<longrightarrow>
        hideLoader r1 s = (Returned (), s))
   \<and> (\<forall>l. loader s = Some l \<and> \<not> hidden l \<longrightarrow>
        snd (hideLoader r2 (snd (hideLoader r1 s))) =
          s\<lparr>loader := Some (l\<lparr>hidden := True\<rparr>),
            console := console s @
              [LogLoaderHidden (case r1 of None \<Rightarrow> ''view ready'' | Some x \<Rightarrow> x)]\<rparr>)"
  by (simp add: hideLoader_twice hideLoader_noop hideLoader_visible)

theorem hideLoader_idempotent_witness:
  "snd (hideLoader (Some ''timeout fallback'') (snd (hideLoader None page))) =
     page\<lparr>loader := Some \<lparr>hidden = True\<rparr>, console := [LogLoaderHidden ''view ready'']\<rparr>
   \<and> hideLoader None (page\<lparr>loader := None\<rparr>) = (Returned (), page\<lparr>loader := None\<rparr>)
   \<and> hideLoader None (page\<lparr>loader := Some \<lparr>hidden = True\<rparr>\<rparr>)
        = (Returned (), page\<lparr>loader := Some \<lparr>hidden = True\<rparr>\<rparr>)"
proof -
  have v: "loader page = Some \<lparr>hidden = False\<rparr> \<and> \<not> hidden \<lparr>hidden = False\<rparr>"
    by (simp add: page_def new_MapService_def)
  have a: "loader (page\<lparr>loader := None\<rparr>) = None"
    by simp
  have h: "\<exists>l. loader (page\<lparr>loader := Some \<lparr>hidden = True\<rparr>\<rparr>) = Some l \<and> hidden l"
    by simp
  from hideLoader_idempotent [of "Some ''timeout fallback''" None page] v
  have "snd (hideLoader (Some ''timeout fallback'') (snd (hideLoader None page))) =
          page\<lparr>loader := Some (\<lparr>hidden = False\<rparr>\<lparr>hidden := True\<rparr>),
               console := console page @ [LogLoaderHidden ''view ready'']\<rparr>"
    by (elim conjE allE [of _ "\<lparr>hidden = False\<rparr>"]) simp
  moreover from hideLoader_idempotent [of None None "page\<lparr>loader := None\<rparr>"] a
  have "hideLoader None (page\<lparr>loader := None\<rparr>) = (Returned (), page\<lparr>loader := None\<rparr>)"
    by blast
  moreover from hideLoader_idempotent [of None None "page\<lparr>loader := Some \<lparr>hidden = True\<rparr>\<rparr>"] h
  have "hideLoader None (page\<lparr>loader := Some \<lparr>hidden = True\<rparr>\<rparr>)
          = (Returned (), page\<lparr>loader := Some \<lparr>hidden = True\<rparr>\<rparr>)"
    by blast
  ultimately show ?thesis
    by (simp add: page_def new_MapService_def)
qed

text \<open>
  Claim C3. The handler takes the view from \<open>detail.view\<close> when there is one, and
  otherwise from \<open>target.view\<close>; in both cases that view is the one stored in the
  service when the handler returns.
\<close>

theorem arcgisViewReadyChange_path_fallback:
  "(\<forall>h. detail_path e = Some h \<longrightarrow>
       event_view e = Some h \<and> svc_view (snd (arcgisViewReadyChange e s)) = Some h)
   \<and> (\<forall>h. detail_path e = None \<and> target_path e = Some h \<longrightarrow>
       event_view e = Some h \<and> svc_view (snd (arcgisViewReadyChange e s)) = Some h)"
  by (simp add: ready_stores event_view_def)

theorem arcgisViewReadyChange_path_fallback_witness:
  "svc_view (snd (arcgisViewReadyChange
       \<lparr>detail = None, target = Some \<lparr>target_view = Some 1\<rparr>\<rparr> page)) = Some 1
   \<and> svc_view (snd (arcgisViewReadyChange
       \<lparr>detail = Some \<lparr>detail_view = None\<rparr>, target = Some \<lparr>target_view = Some 1\<rparr>\<rparr> page)) = Some 1
   \<and> svc_view (snd (arcgisViewReadyChange
       \<lparr>detail = Some \<lparr>detail_view = Some 2\<rparr>, target = Some \<lparr>target_view = Some 1\<rparr>\<rparr> page)) = Some 2"
  using arcgisViewReadyChange_path_fallback
      [of "\<lparr>detail = None, target = Some \<lparr>target_view = Some 1\<rparr>\<rparr>" page]
    arcgisViewReadyChange_path_fallback
      [of "\<lparr>detail = Some \<lparr>detail_view = None\<rparr>, target = Some \<lparr>target_view = Some 1\<rparr>\<rparr>" page]
    arcgisViewReadyChange_path_fallback
      [of "\<lparr>detail = Some \<lparr>detail_view = Some 2\<rparr>, target = Some \<lparr>target_view = Some 1\<rparr>\<rparr>" page]
  by (simp add: detail_path_def target_path_def)

text \<open>
  Claim C4. With no view at \<open>detail.view\<close> nor at \<open>target.view\<close> the handler
  returns normally and only prints: the stored view, the view objects, the header, the
  loader and the timers are as before, and the warning is the last line printed.
\<close>

theorem arcgisViewReadyChange_no_handle:
  "detail_path e = None \<and> target_path e = None \<longrightarrow>
     arcgisViewReadyChange e s =
       (Returned (), s\<lparr>console := console s @ [LogFired e, WarnViewNotFound]\<rparr>)
     \<and> svc_view (snd (arcgisViewReadyChange e s)) = svc_view s
     \<and> heap (snd (arcgisViewReadyChange e s)) = heap s
     \<and> navLogo (snd (arcgisViewReadyChange e s)) = navLogo s
     \<and> loader (snd (arcgisViewReadyChange e s)) = loader s
     \<and> timers (snd (arcgisViewReadyChange e s)) = timers s"
  by (simp add: ready_no_view event_view_def)

theorem arcgisViewReadyChange_no_handle_witness:
  "arcgisViewReadyChange \<lparr>detail = Some \<lparr>detail_view = None\<rparr>, target = None\<rparr> page =
     (Returned (),
      page\<lparr>console := [LogFired \<lparr>detail = Some \<lparr>detail_view = None\<rparr>, target = None\<rparr>,
                        WarnViewNotFound]\<rparr>)"
  using arcgisViewReadyChange_no_handle
      [of "\<lparr>detail = Some \<lparr>detail_view = None\<rparr>, target = None\<rparr>" page]
  by (simp add: detail_path_def target_path_def page_def new_MapService_def)

text \<open>
  Claim C5. When the event carries a view, the handler is the five calls in order, each
  returning normally: \<open>setView\<close>, \<open>updateHeaderFromPortalItem\<close>,
  \<open>hideLoader('view ready')\<close>, \<open>hideLoaderOnFirstLayerCreate\<close>, and the
  \<open>setTimeout\<close> of 5000 ms whose callback is \<open>hideLoader('timeout fallback')\<close>.
  The order shows in the result: the header is the one of the new view, the listener is
  registered on the new view, and the timer is queued whatever the loader was.
\<close>

theorem arcgisViewReadyChange_sequence:
  "event_view e = Some v \<longrightarrow>
     (let s0 = console_out (LogViewReady v) (console_out (LogFired e) s);
          s1 = snd (setView v s0);
          s2 = snd (updateHeaderFromPortalItem s1);
          s3 = snd (hideLoader (Some ''view ready'') s2);
          s4 = snd (hideLoaderOnFirstLayerCreate s3);
          s5 = snd (setTimeout TimeoutFallback 5000 s4)
      in arcgisViewReadyChange e s = (Returned (), s5)
         \<and> fst (setView v s0) = Returned ()
         \<and> fst (updateHeaderFromPortalItem s1) = Returned ()
         \<and> fst (hideLoader (Some ''view ready'') s2) = Returned ()
         \<and> fst (hideLoaderOnFirstLayerCreate s3) = Returned ()
         \<and> fst (setTimeout TimeoutFallback 5000 s4) = Returned ())
     \<and> svc_view (snd (arcgisViewReadyChange e s)) = Some v
     \<and> navLogo (snd (arcgisViewReadyChange e s)) =
         navLogo (snd (updateHeaderFromPortalItem (s\<lparr>svc_view := Some v\<rparr>)))
     \<and> loader (snd (arcgisViewReadyChange e s)) =
         map_option (\<lambda>l. l\<lparr>hidden := True\<rparr>) (loader s)
     \<and> listeners (heap (snd (arcgisViewReadyChange e s)) v) =
         listeners (heap s v) @
           [\<lparr>lid = nextHandle (heap s v), evname = ''layerview-create'',
             cb = HideLoaderThenRemove\<rparr>]
     \<and> timers (snd (arcgisViewReadyChange e s)) = timers s @ [(TimeoutFallback, 5000)]
     \<and> fire_timer TimeoutFallback = hideLoader (Some ''timeout fallback'')"
proof (intro impI conjI)
  assume v: "event_view e = Some v"
  show "let s0 = console_out (LogViewReady v) (console_out (LogFired e) s);
          s1 = snd (setView v s0);
          s2 = snd (updateHeaderFromPortalItem s1);
          s3 = snd (hideLoader (Some ''view ready'') s2);
          s4 = snd (hideLoaderOnFirstLayerCreate s3);
          s5 = snd (setTimeout TimeoutFallback 5000 s4)
      in arcgisViewReadyChange e s = (Returned (), s5)
         \<and> fst (setView v s0) = Returned ()
         \<and> fst (updateHeaderFromPortalItem s1) = Returned ()
         \<and> fst (hideLoader (Some ''view ready'') s2) = Returned ()
         \<and> fst (hideLoaderOnFirstLayerCreate s3) = Returned ()
         \<and> fst (setTimeout TimeoutFallback 5000 s4) = Returned ()"
    unfolding Let_def
    by (simp only: ready_with_view [OF v] setView_returns updateHeader_returns
          hideLoader_returns hideLoaderOnFirstLayerCreate_returns setTimeout_frame(1))
       (simp add: setTimeout_def)
  show "svc_view (snd (arcgisViewReadyChange e s)) = Some v"
    using v by (rule ready_stores)
  show "navLogo (snd (arcgisViewReadyChange e s)) =
         navLogo (snd (updateHeaderFromPortalItem (s\<lparr>svc_view := Some v\<rparr>)))"
    using v by (rule ready_header)
  show "loader (snd (arcgisViewReadyChange e s)) =
         map_option (\<lambda>l. l\<lparr>hidden := True\<rparr>) (loader s)"
    using v by (rule ready_loader)
  show "listeners (heap (snd (arcgisViewReadyChange e s)) v) =
         listeners (heap s v) @
           [\<lparr>lid = nextHandle (heap s v), evname = ''layerview-create'',
             cb = HideLoaderThenRemove\<rparr>]"
    using v by (simp add: ready_view_objects)
  show "timers (snd (arcgisViewReadyChange e s)) = timers s @ [(TimeoutFallback, 5000)]"
    using v by (rule ready_timers)
  show "fire_timer TimeoutFallback = hideLoader (Some ''timeout fallback'')"
    by (rule ext) (simp add: fire_timer_def)
qed

theorem arcgisViewReadyChange_sequence_witness:
  "event_view ready_event = Some 1
   \<and> fst (arcgisViewReadyChange ready_event page) = Returned ()
   \<and> svc_view (snd (arcgisViewReadyChange ready_event page)) = Some 1
   \<and> navLogo (snd (arcgisViewReadyChange ready_event page)) =
        Some \<lparr>heading = JString ''Parks'', description = JString [],
              thumbnail = JString ''t.png'', href = JString ''p.html'',
              label = JString ''Thumbnail of map''\<rparr>
   \<and> loader (snd (arcgisViewReadyChange ready_event page)) = Some \<lparr>hidden = True\<rparr>
   \<and> listeners (heap (snd (arcgisViewReadyChange ready_event page)) 1) =
        [\<lparr>lid = 0, evname = ''layerview-create'', cb = HideLoaderThenRemove\<rparr>]
   \<and> timers (snd (arcgisViewReadyChange ready_event page)) = [(TimeoutFallback, 5000)]
   \<and> timers (snd (arcgisViewReadyChange ready_event (page\<lparr>loader := Some \<lparr>hidden = True\<rparr>\<rparr>)))
        = [(TimeoutFallback, 5000)]"
proof -
  have h: "event_view ready_event = Some 1"
    by (simp add: event_view_def detail_path_def target_path_def ready_event_def)
  have n: "navLogo (snd (updateHeaderFromPortalItem (page\<lparr>svc_view := Some 1\<rparr>))) =
        Some \<lparr>heading = JString ''Parks'', description = JString [],
              thumbnail = JString ''t.png'', href = JString ''p.html'',
              label = JString ''Thumbnail of map''\<rparr>"
    by (simp add: updateHeaderFromPortalItem_def page_def new_MapService_def parks_view_def
          parks_item_def blank_logo_def)
  note t = arcgisViewReadyChange_sequence [of ready_event 1 page, THEN mp, OF h]
  have a: "fst (arcgisViewReadyChange ready_event page) = Returned ()"
    using t [THEN conjunct1] by (simp add: Let_def)
  note r = t [THEN conjunct2]
  note b = r [THEN conjunct1]
  note c = r [THEN conjunct2, THEN conjunct1]
  note d = r [THEN conjunct2, THEN conjunct2, THEN conjunct1]
  note e = r [THEN conjunct2, THEN conjunct2, THEN conjunct2, THEN conjunct1]
  note f = r [THEN conjunct2, THEN conjunct2, THEN conjunct2, THEN conjunct2, THEN conjunct1]
  note g = arcgisViewReadyChange_sequence
      [of ready_event 1 "page\<lparr>loader := Some \<lparr>hidden = True\<rparr>\<rparr>", THEN mp, OF h,
       THEN conjunct2, THEN conjunct2, THEN conjunct2, THEN conjunct2, THEN conjunct2,
       THEN conjunct1]
  have p: "loader page = Some \<lparr>hidden = False\<rparr>" "listeners (heap page 1) = []"
    "nextHandle (heap page 1) = 0" "timers page = []"
    by (simp_all add: page_def new_MapService_def parks_view_def blank_view_def)
  from h a b c d e f g n p show ?thesis
    by simp
qed

text \<open>
  Claim C6. \<open>setView\<close> writes the stored view and nothing else; the getter reads it.
  After two \<open>setView\<close> calls the getter gives the second view (and not the first, when
  they differ); a new service has no view.
\<close>

theorem setView_overwrites:
  "setView h s = (Returned (), s\<lparr>svc_view := Some h\<rparr>)
   \<and> view s = svc_view s
   \<and> view (snd (setView h s)) = Some h
   \<and> view (snd (setView h2 (snd (setView h1 s)))) = Some h2
   \<and> (h1 \<noteq> h2 \<longrightarrow> view (snd (setView h2 (snd (setView h1 s)))) \<noteq> Some h1)
   \<and> view (new_MapService objs logo ld) = None"
  by (simp add: setView_def view_def new_MapService_def)

theorem setView_overwrites_witness:
  "(1::nat) \<noteq> 2
   \<and> view page = None
   \<and> view (snd (setView 1 page)) = Some 1
   \<and> view (snd (setView 2 (snd (setView 1 page)))) = Some 2
   \<and> view (snd (setView 2 (snd (setView 1 page)))) \<noteq> Some 1"
proof -
  have d: "(1::nat) \<noteq> 2" by simp
  note t = setView_overwrites [of 1 page 2 1 "(\<lambda>_. blank_view)(1 := parks_view)"
      "Some blank_logo" "Some \<lparr>hidden = False\<rparr>", folded page_def]
  from t d show ?thesis
    by blast
qed

text \<open>
  Claim C7. Without a stored view, \<open>updateHeaderFromPortalItem\<close>,
  \<open>hideLoaderOnFirstLayerCreate\<close>, \<open>clearGraphics\<close> and \<open>dropMarker\<close> return
  normally and change nothing, and \<open>goTo\<close> returns \<open>undefined\<close>. The same holds for
  \<open>updateHeaderFromPortalItem\<close> when the map, the portal item or the header element is
  missing, and for \<open>hideLoader\<close> when the loader element is missing. Nothing is
  printed in any of these cases.
\<close>

theorem absent_dependency_is_noop:
  "(svc_view s = None \<longrightarrow>
      updateHeaderFromPortalItem s = (Returned (), s)
      \<and> hideLoaderOnFirstLayerCreate s = (Returned (), s)
      \<and> goTo c z s = (Returned None, s)
      \<and> clearGraphics s = (Returned (), s)
      \<and> dropMarker lon lat t s = (Returned (), s))
   \<and> (((\<exists>v. svc_view s = Some v \<and> view_map (heap s v) = None)
        \<or> (\<exists>v w. svc_view s = Some v \<and> view_map (heap s v) = Some w \<and> portalItem w = None)
        \<or> navLogo s = None) \<longrightarrow>
      updateHeaderFromPortalItem s = (Returned (), s))
   \<and> (loader s = None \<longrightarrow> hideLoader r s = (Returned (), s))"
  by (simp add: updateHeader_skips hideLoaderOnFirstLayerCreate_none goTo_none
        clearGraphics_none dropMarker_none hideLoader_noop)

theorem absent_dependency_is_noop_witness:
  "goTo (10, 20) (Some 5) page = (Returned None, page)
   \<and> updateHeaderFromPortalItem page = (Returned (), page)
   \<and> hideLoaderOnFirstLayerCreate page = (Returned (), page)
   \<and> clearGraphics page = (Returned (), page)
   \<and> dropMarker (-117.2) 34.0 (Some ''Camp'') page = (Returned (), page)
   \<and> updateHeaderFromPortalItem ((snd (setView 1 page))\<lparr>navLogo := None\<rparr>)
        = (Returned (), (snd (setView 1 page))\<lparr>navLogo := None\<rparr>)
   \<and> hideLoader (Some ''view ready'') (page\<lparr>loader := None\<rparr>)
        = (Returned (), page\<lparr>loader := None\<rparr>)"
proof -
  have n: "svc_view page = None"
    by (simp add: page_def new_MapService_def)
  have l: "navLogo ((snd (setView 1 page))\<lparr>navLogo := None\<rparr>) = None"
    by simp
  have d: "loader (page\<lparr>loader := None\<rparr>) = None"
    by simp
  from absent_dependency_is_noop [of page "(10, 20)" "Some 5" "-117.2" "34.0" "Some ''Camp''"] n
  have "goTo (10, 20) (Some 5) page = (Returned None, page)
   \<and> updateHeaderFromPortalItem page = (Returned (), page)
   \<and> hideLoaderOnFirstLayerCreate page = (Returned (), page)
   \<and> clearGraphics page = (Returned (), page)
   \<and> dropMarker (-117.2) 34.0 (Some ''Camp'') page = (Returned (), page)"
    by blast
  moreover from absent_dependency_is_noop [of "(snd (setView 1 page))\<lparr>navLogo := None\<rparr>"] l
  have "updateHeaderFromPortalItem ((snd (setView 1 page))\<lparr>navLogo := None\<rparr>)
        = (Returned (), (snd (setView 1 page))\<lparr>navLogo := None\<rparr>)"
    by blast
  moreover from absent_dependency_is_noop [of "page\<lparr>loader := None\<rparr>"] d
  have "hideLoader (Some ''view ready'') (page\<lparr>loader := None\<rparr>)
        = (Returned (), page\<lparr>loader := None\<rparr>)"
    by blast
  ultimately show ?thesis
    by blast
qed

text \<open>
  Claim C8. With a stored view, \<open>dropMarker\<close> first appends one graphic, with the
  attributes \<open>{title, lon, lat}\<close> (title \<open>'Point'\<close> when omitted), the point
  \<open>(lon, lat)\<close> and the fixed template, to the view's graphics, and then opens the
  popup on the state so reached, with that graphic as the only feature and its point as
  the location. When the view has no popup the second step throws and the graphic stays.
\<close>

theorem dropMarker_adds_then_opens:
  "svc_view s = Some v \<longrightarrow>
     (let g = marker lon lat (case t of None \<Rightarrow> ''Point'' | Some x \<Rightarrow> x);
          r = dropMarker lon lat t s
      in r = popup_open v [g] (geometry g) (graphics_add v g s)
         \<and> attributes g =
             \<lparr>attr_title = (case t of None \<Rightarrow> ''Point'' | Some x \<Rightarrow> x), attr_lon = lon, attr_lat = lat\<rparr>
         \<and> geometry g = \<lparr>longitude = lon, latitude = lat\<rparr>
         \<and> popupTemplate g =
             \<lparr>template_title = ''{title}'', template_content = ''Lon: {lon}<br>Lat: {lat}''\<rparr>
         \<and> graphics (heap (graphics_add v g s) v) = graphics (heap s v) @ [g]
         \<and> graphics (heap (snd r) v) = graphics (heap s v) @ [g]
         \<and> (graphics (heap s v) = [] \<longrightarrow> length (graphics (heap (snd r) v)) = 1)
         \<and> (\<forall>p. view_popup (heap s v) = Some p \<longrightarrow>
               fst r = Returned ()
               \<and> view_popup (heap (snd r) v) =
                   Some (p\<lparr>popup_visible := True, popup_features := [g],
                            popup_location := Some (geometry g)\<rparr>))
         \<and> (view_popup (heap s v) = None \<longrightarrow>
               r = (Thrown TypeError, graphics_add v g s)))"
  unfolding Let_def
proof (intro impI conjI allI)
  fix p
  assume v: "svc_view s = Some v"
  let ?g = "marker lon lat (case t of None \<Rightarrow> ''Point'' | Some x \<Rightarrow> x)"
  show "dropMarker lon lat t s = popup_open v [?g] (geometry ?g) (graphics_add v ?g s)"
    using v by (rule dropMarker_some)
  show "attributes ?g =
          \<lparr>attr_title = (case t of None \<Rightarrow> ''Point'' | Some x \<Rightarrow> x), attr_lon = lon, attr_lat = lat\<rparr>"
    by (simp add: marker_def)
  show "geometry ?g = \<lparr>longitude = lon, latitude = lat\<rparr>"
    by (simp add: marker_def)
  show "popupTemplate ?g =
          \<lparr>template_title = ''{title}'', template_content = ''Lon: {lon}<br>Lat: {lat}''\<rparr>"
    by (simp add: marker_def)
  show "graphics (heap (graphics_add v ?g s) v) = graphics (heap s v) @ [?g]"
    by (simp add: graphics_add_def update_view_def)
  show "graphics (heap (snd (dropMarker lon lat t s)) v) = graphics (heap s v) @ [?g]"
    using v by (rule dropMarker_graphics)
  show "length (graphics (heap (snd (dropMarker lon lat t s)) v)) = 1"
    if "graphics (heap s v) = []"
    using that v by (simp add: dropMarker_graphics)
  show "fst (dropMarker lon lat t s) = Returned ()"
    if "view_popup (heap s v) = Some p"
    using that v by (simp add: dropMarker_popup_present)
  show "view_popup (heap (snd (dropMarker lon lat t s)) v) =
          Some (p\<lparr>popup_visible := True, popup_features := [?g],
                   popup_location := Some (geometry ?g)\<rparr>)"
    if "view_popup (heap s v) = Some p"
    using that v by (simp add: dropMarker_popup_present marker_def)
  show "dropMarker lon lat t s = (Thrown TypeError, graphics_add v ?g s)"
    if "view_popup (heap s v) = None"
    using v that by (rule dropMarker_popup_missing)
qed

theorem dropMarker_adds_then_opens_witness:
  "graphics (heap (snd (setView 1 page)) 1) = []
   \<and> fst (dropMarker (-117.2) 34.0 (Some ''Camp'') (snd (setView 1 page))) = Returned ()
   \<and> length (graphics (heap (snd (dropMarker (-117.2) 34.0 (Some ''Camp'') (snd (setView 1 page)))) 1)) = 1
   \<and> view_popup (heap (snd (dropMarker (-117.2) 34.0 (Some ''Camp'') (snd (setView 1 page)))) 1) =
       Some \<lparr>popup_visible = True, popup_features = [marker (-117.2) 34.0 ''Camp''],
             popup_location = Some \<lparr>longitude = -117.2, latitude = 34.0\<rparr>\<rparr>
   \<and> fst (dropMarker (-117.2) 34.0 None (snd (setView 2 page))) = Thrown TypeError
   \<and> graphics (heap (snd (dropMarker (-117.2) 34.0 None (snd (setView 2 page)))) 2) =
       [marker (-117.2) 34.0 ''Point'']"
proof -
  let ?s = "snd (setView 1 page)"
  let ?u = "snd (setView 2 page)"
  have s: "svc_view ?s = Some 1" "graphics (heap ?s 1) = []" "view_popup (heap ?s 1) = Some closed_popup"
    by (simp_all add: setView_def page_def new_MapService_def parks_view_def blank_view_def)
  have u: "svc_view ?u = Some 2" "graphics (heap ?u 2) = []" "view_popup (heap ?u 2) = None"
    by (simp_all add: setView_def page_def new_MapService_def blank_view_def)
  note a = dropMarker_adds_then_opens [of ?s 1 "-117.2" "34.0" "Some ''Camp''", THEN mp, OF s(1),
             unfolded Let_def]
  note b = dropMarker_adds_then_opens [of ?u 2 "-117.2" "34.0" None, THEN mp, OF u(1),
             unfolded Let_def]
  from a s(2) have 1: "length (graphics (heap (snd (dropMarker (-117.2) 34.0 (Some ''Camp'') ?s)) 1)) = 1"
    by blast
  from a s(3) have 2: "fst (dropMarker (-117.2) 34.0 (Some ''Camp'') ?s) = Returned ()"
    by blast
  from a s(3) have 3: "view_popup (heap (snd (dropMarker (-117.2) 34.0 (Some ''Camp'') ?s)) 1) =
      Some (closed_popup\<lparr>popup_visible := True,
              popup_features := [marker (-117.2) 34.0 (case Some ''Camp'' of None \<Rightarrow> ''Point'' | Some x \<Rightarrow> x)],
              popup_location := Some (geometry (marker (-117.2) 34.0 (case Some ''Camp'' of None \<Rightarrow> ''Point'' | Some x \<Rightarrow> x)))\<rparr>)"
    by blast
  from b u(3) have 4: "dropMarker (-117.2) 34.0 None ?u =
      (Thrown TypeError, graphics_add 2 (marker (-117.2) 34.0 (case None of None \<Rightarrow> ''Point'' | Some x \<Rightarrow> x)) ?u)"
    by blast
  from b have 5: "graphics (heap (snd (dropMarker (-117.2) 34.0 None ?u)) 2) =
      graphics (heap ?u 2) @ [marker (-117.2) 34.0 (case None of None \<Rightarrow> ''Point'' | Some x \<Rightarrow> x)]"
    by blast
  from 3 have q3: "view_popup (heap (snd (dropMarker (-117.2) 34.0 (Some ''Camp'') ?s)) 1) =
       Some \<lparr>popup_visible = True, popup_features = [marker (-117.2) 34.0 ''Camp''],
             popup_location = Some \<lparr>longitude = -117.2, latitude = 34.0\<rparr>\<rparr>"
    by (simp add: closed_popup_def marker_def)
  from 4 have q4: "fst (dropMarker (-117.2) 34.0 None ?u) = Thrown TypeError"
    by simp
  from 5 u(2) have q5: "graphics (heap (snd (dropMarker (-117.2) 34.0 None ?u)) 2) =
       [marker (-117.2) 34.0 ''Point'']"
    by simp
  from s(2) 1 2 q3 q4 q5 show ?thesis
    by blast
qed

text \<open>
  Claim C9. Without a stored view \<open>hideLoaderOnFirstLayerCreate\<close> does nothing. With a
  stored view it registers one listener for \<open>'layerview-create'\<close> under a new handle.
  Whatever happens afterwards, that listener runs at most once: it does not run before
  the view first emits \<open>'layerview-create'\<close>; at that event it runs once, after which the
  loader (if there is one) is hidden and the handle is no longer registered; and it never
  runs again.
\<close>

theorem hideLoaderOnFirstLayerCreate_once:
  "(svc_view s = None \<longrightarrow> hideLoaderOnFirstLayerCreate s = (Returned (), s))
   \<and> (svc_view s = Some v \<and> handles_fresh v s \<longrightarrow>
       (let h = nextHandle (heap s v);
            s1 = snd (hideLoaderOnFirstLayerCreate s);
            ev = Emit v ''layerview-create''
        in fst (hideLoaderOnFirstLayerCreate s) = Returned ()
           \<and> listeners (heap s1 v) =
               listeners (heap s v) @
                 [\<lparr>lid = h, evname = ''layerview-create'', cb = HideLoaderThenRemove\<rparr>]
           \<and> invocations v h acts s1 \<le> 1
           \<and> (ev \<notin> set pre \<longrightarrow>
                invocations v h pre s1 = 0
                \<and> invoked v h ev (run pre s1) = 1
                \<and> (\<forall>l. loader (run (pre @ [ev]) s1) = Some l \<longrightarrow> hidden l)
                \<and> h \<notin> lid ` set (listeners (heap (run (pre @ [ev]) s1) v))
                \<and> invocations v h post (run (pre @ [ev]) s1) = 0)))"
proof (intro conjI impI)
  assume "svc_view s = None"
  then show "hideLoaderOnFirstLayerCreate s = (Returned (), s)"
    by (rule hideLoaderOnFirstLayerCreate_none)
next
  assume a: "svc_view s = Some v \<and> handles_fresh v s"
  define h where "h = nextHandle (heap s v)"
  define s1 where "s1 = snd (hideLoaderOnFirstLayerCreate s)"
  define l where "l = \<lparr>lid = h, evname = ''layerview-create'', cb = HideLoaderThenRemove\<rparr>"
  from a have r: "registered v h s1 = [l]" and n: "h < nextHandle (heap s1 v)"
    and ls: "listeners (heap s1 v) = listeners (heap s v) @ [l]"
    unfolding h_def s1_def l_def by (simp_all add: subscription_registered)
  have nm: "evname l = ''layerview-create''"
    by (simp add: l_def)
  have once: "invocations v h acts s1 \<le> 1"
    using r n by (rule registered_once_invoked_once)
  have first: "invocations v h pre s1 = 0
       \<and> invoked v h (Emit v ''layerview-create'') (run pre s1) = 1
       \<and> (\<forall>x. loader (run (pre @ [Emit v ''layerview-create'']) s1) = Some x \<longrightarrow> hidden x)
       \<and> h \<notin> lid ` set (listeners (heap (run (pre @ [Emit v ''layerview-create'']) s1) v))
       \<and> invocations v h post (run (pre @ [Emit v ''layerview-create'']) s1) = 0"
    if p: "Emit v ''layerview-create'' \<notin> set pre"
  proof -
    let ?s2 = "run pre s1"
    let ?s3 = "emit v ''layerview-create'' ?s2"
    from p nm have "Emit v (evname l) \<notin> set pre" by simp
    from registered_until_event [OF r n this]
    have z: "invocations v h pre s1 = 0" and r2: "registered v h ?s2 = [l]"
      and n2: "h < nextHandle (heap ?s2 v)"
      by simp_all
    from registered_at_event [OF r2] nm
    have i: "invoked v h (Emit v ''layerview-create'') ?s2 = 1"
      and r3: "registered v h ?s3 = []"
      and ld: "loader ?s3 = map_option (\<lambda>x. x\<lparr>hidden := True\<rparr>) (loader ?s2)"
      by simp_all
    from n2 have n3: "h < nextHandle (heap ?s3 v)"
      by (simp add: emit_nextHandle)
    have run3: "run (pre @ [Emit v ''layerview-create'']) s1 = ?s3"
      by (simp add: run_append)
    from ld have hid: "\<forall>x. loader ?s3 = Some x \<longrightarrow> hidden x"
      by auto
    from r3 have gone: "h \<notin> lid ` set (listeners (heap ?s3 v))"
      by (auto simp: registered_def filter_empty_conv)
    from unregistered_never_invoked [OF r3 n3]
    have never: "invocations v h post ?s3 = 0" .
    from z i hid gone never show ?thesis
      by (simp only: run3) simp
  qed
  from once first ls
  show "let h = nextHandle (heap s v); s1 = snd (hideLoaderOnFirstLayerCreate s);
            ev = Emit v ''layerview-create''
        in fst (hideLoaderOnFirstLayerCreate s) = Returned ()
           \<and> listeners (heap s1 v) =
               listeners (heap s v) @
                 [\<lparr>lid = h, evname = ''layerview-create'', cb = HideLoaderThenRemove\<rparr>]
           \<and> invocations v h acts s1 \<le> 1
           \<and> (ev \<notin> set pre \<longrightarrow>
                invocations v h pre s1 = 0
                \<and> invoked v h ev (run pre s1) = 1
                \<and> (\<forall>l. loader (run (pre @ [ev]) s1) = Some l \<longrightarrow> hidden l)
                \<and> h \<notin> lid ` set (listeners (heap (run (pre @ [ev]) s1) v))
                \<and> invocations v h post (run (pre @ [ev]) s1) = 0)"
    unfolding Let_def h_def [symmetric] s1_def [symmetric] l_def [symmetric]
    by (simp add: hideLoaderOnFirstLayerCreate_returns s1_def)
qed

theorem hideLoaderOnFirstLayerCreate_once_witness:
  "hideLoaderOnFirstLayerCreate page = (Returned (), page)
   \<and> svc_view (snd (setView 1 page)) = Some 1
   \<and> handles_fresh 1 (snd (setView 1 page))
   \<and> Emit 1 ''layerview-create'' \<notin> set [Emit 2 ''layerview-create'', CallClearGraphics]
   \<and> invocations 1 0
        [Emit 1 ''layerview-create'', TimerFires 0, Emit 1 ''layerview-create'']
        (snd (hideLoaderOnFirstLayerCreate (snd (setView 1 page)))) \<le> 1
   \<and> invocations 1 0 [Emit 2 ''layerview-create'', CallClearGraphics]
        (snd (hideLoaderOnFirstLayerCreate (snd (setView 1 page)))) = 0
   \<and> invoked 1 0 (Emit 1 ''layerview-create'')
        (run [Emit 2 ''layerview-create'', CallClearGraphics]
           (snd (hideLoaderOnFirstLayerCreate (snd (setView 1 page))))) = 1
   \<and> loader (run ([Emit 2 ''layerview-create'', CallClearGraphics] @ [Emit 1 ''layerview-create''])
           (snd (hideLoaderOnFirstLayerCreate (snd (setView 1 page))))) = Some \<lparr>hidden = True\<rparr>
   \<and> invocations 1 0 [Emit 1 ''layerview-create'', Emit 1 ''layerview-create'']
        (run ([Emit 2 ''layerview-create'', CallClearGraphics] @ [Emit 1 ''layerview-create''])
           (snd (hideLoaderOnFirstLayerCreate (snd (setView 1 page))))) = 0
   \<and> loader (run [Emit 2 ''layerview-create'', CallClearGraphics]
           (snd (hideLoaderOnFirstLayerCreate (snd (setView 1 page))))) = Some \<lparr>hidden = False\<rparr>
   \<and> invocations 1 0
        [Emit 1 ''layerview-create'', TimerFires 0, Emit 1 ''layerview-create'']
        (snd (hideLoaderOnFirstLayerCreate (snd (setView 1 page)))) = 1"
proof -
  let ?s = "snd (setView 1 page)"
  have n: "svc_view page = None"
    by (simp add: page_def new_MapService_def)
  have hyp: "svc_view ?s = Some 1 \<and> handles_fresh 1 ?s"
    by (simp add: setView_def page_def new_MapService_def handles_fresh_def parks_view_def
          blank_view_def)
  have h0: "nextHandle (heap ?s 1) = 0"
    by (simp add: setView_def page_def new_MapService_def parks_view_def blank_view_def)
  have pre: "Emit 1 ''layerview-create'' \<notin> set [Emit 2 ''layerview-create'', CallClearGraphics]"
    by simp
  note a = hideLoaderOnFirstLayerCreate_once [of page, THEN conjunct1, THEN mp, OF n]
  note t = hideLoaderOnFirstLayerCreate_once
      [of ?s 1 "[Emit 1 ''layerview-create'', TimerFires 0, Emit 1 ''layerview-create'']"
          "[Emit 2 ''layerview-create'', CallClearGraphics]"
          "[Emit 1 ''layerview-create'', Emit 1 ''layerview-create'']",
       THEN conjunct2, THEN mp, OF hyp, unfolded Let_def h0]
  have before: "loader (run [Emit 2 ''layerview-create'', CallClearGraphics]
           (snd (hideLoaderOnFirstLayerCreate (snd (setView 1 page))))) = Some \<lparr>hidden = False\<rparr>"
    by (simp add: hideLoaderOnFirstLayerCreate_def view_on_def update_view_def setView_def
          page_def new_MapService_def parks_view_def blank_view_def emit_targets_def emit_def
          clearGraphics_def graphics_removeAll_def)
  have exactly: "invocations 1 0
        [Emit 1 ''layerview-create'', TimerFires 0, Emit 1 ''layerview-create'']
        (snd (hideLoaderOnFirstLayerCreate (snd (setView 1 page)))) = 1"
    by (simp add: hideLoaderOnFirstLayerCreate_def view_on_def update_view_def setView_def
          page_def new_MapService_def parks_view_def blank_view_def emit_targets_def emit_def
          run_listener_def handle_remove_def hideLoader_def console_out_def Let_def)
  have after: "loader (run ([Emit 2 ''layerview-create'', CallClearGraphics] @ [Emit 1 ''layerview-create''])
           (snd (hideLoaderOnFirstLayerCreate (snd (setView 1 page))))) = Some \<lparr>hidden = True\<rparr>"
    by (simp add: hideLoaderOnFirstLayerCreate_def view_on_def update_view_def setView_def
          page_def new_MapService_def parks_view_def blank_view_def emit_targets_def emit_def
          clearGraphics_def graphics_removeAll_def run_listener_def handle_remove_def
          hideLoader_def console_out_def Let_def)
  from a hyp pre t before after exactly show ?thesis
    by blast
qed

text \<open>
  Claim C10. None of \<open>updateHeaderFromPortalItem\<close>, \<open>hideLoader\<close>,
  \<open>hideLoaderOnFirstLayerCreate\<close>, \<open>goTo\<close>, \<open>clearGraphics\<close> and
  \<open>dropMarker\<close> changes the stored view; \<open>setView\<close> does.
\<close>

theorem only_setView_writes_view:
  "svc_view (snd (updateHeaderFromPortalItem s)) = svc_view s
   \<and> svc_view (snd (hideLoader r s)) = svc_view s
   \<and> svc_view (snd (hideLoaderOnFirstLayerCreate s)) = svc_view s
   \<and> svc_view (snd (goTo c z s)) = svc_view s
   \<and> svc_view (snd (clearGraphics s)) = svc_view s
   \<and> svc_view (snd (dropMarker lon lat t s)) = svc_view s
   \<and> svc_view (snd (setView v s)) = Some v"
  by (simp add: updateHeader_frame hideLoader_frame hideLoaderOnFirstLayerCreate_frame
        goTo_frame clearGraphics_frame dropMarker_frame setView_def)

end
